theory Spec2Isabelle
  imports Complex_Main "HOL-Library.Multiset"
begin

section \<open>The C-CRED in-memory server (server.js) as a state-passing model\<close>

text \<open>
  The server keeps six global arrays and every route handler runs to completion on them.
  Each handler is modelled as a function from its request and the store to a response
  and the store it leaves behind. A handler that returns early returns the store it read.
\<close>

subsection \<open>JavaScript values of request fields\<close>

text \<open>
  A scalar field of a request body: absent (\<open>undefined\<close>), \<open>null\<close>, a boolean, a number
  or a string. A number is the exact rational that its literal denotes: the model agrees
  with the code as long as every number that occurs is a double, and it does not round to
  53 bits or tell \<open>-0\<close> from \<open>0\<close>.
\<close>

datatype jsval = JUndefined | JNull | JBool bool | JNum rat | JStr string

text \<open>Any JSON value, as \<open>express.json()\<close> parses it; an object keeps its keys in order.\<close>

datatype json = JPrim jsval | JArr "json list" | JObj "(string \<times> json) list"

text \<open>\<open>!v\<close> is \<open>\<not> truthy v\<close>, and \<open>v || d\<close> is \<open>if truthy v then v else d\<close>.\<close>

fun truthy :: "jsval \<Rightarrow> bool" where
  "truthy JUndefined = False"
| "truthy JNull = False"
| "truthy (JBool b) = b"
| "truthy (JNum r) = (r \<noteq> 0)"
| "truthy (JStr s) = (s \<noteq> [])"

fun truthy_json :: "json \<Rightarrow> bool" where
  "truthy_json (JPrim v) = truthy v"
| "truthy_json (JArr _) = True"
| "truthy_json (JObj _) = True"

text \<open>
  A text field (an id, the vintage) is a string or absent; the empty string is falsy.
\<close>

fun truthy_str :: "string option \<Rightarrow> bool" where
  "truthy_str None = False"
| "truthy_str (Some s) = (s \<noteq> [])"

subsection \<open>Numbers and the conversions the handlers apply\<close>

text \<open>A number computed by the server: a rational, an infinity or \<open>NaN\<close>.\<close>

datatype jsnum = NaN | NegInf | Fin rat | PosInf

fun js_neg :: "jsnum \<Rightarrow> jsnum" where
  "js_neg NaN = NaN"
| "js_neg NegInf = PosInf"
| "js_neg (Fin r) = Fin (- r)"
| "js_neg PosInf = NegInf"

text \<open>\<open>a + b\<close> on numbers.\<close>

fun js_add :: "jsnum \<Rightarrow> jsnum \<Rightarrow> jsnum" where
  "js_add NaN _ = NaN"
| "js_add _ NaN = NaN"
| "js_add (Fin a) (Fin b) = Fin (a + b)"
| "js_add PosInf NegInf = NaN"
| "js_add NegInf PosInf = NaN"
| "js_add PosInf _ = PosInf"
| "js_add _ PosInf = PosInf"
| "js_add NegInf _ = NegInf"
| "js_add _ NegInf = NegInf"

text \<open>\<open>a / n\<close> for an array length \<open>n\<close>.\<close>

fun js_div_length :: "jsnum \<Rightarrow> nat \<Rightarrow> jsnum" where
  "js_div_length NaN n = NaN"
| "js_div_length PosInf n = PosInf"
| "js_div_length NegInf n = NegInf"
| "js_div_length (Fin a) n =
     (if n = 0 then (if a = 0 then NaN else if 0 < a then PosInf else NegInf)
      else Fin (a / of_nat n))"

text \<open>\<open>a < b\<close>, \<open>a <= b\<close> and \<open>a >= b\<close> on numbers: false as soon as one side is \<open>NaN\<close>.\<close>

fun js_lt :: "jsnum \<Rightarrow> jsnum \<Rightarrow> bool" where
  "js_lt NaN _ = False"
| "js_lt _ NaN = False"
| "js_lt (Fin a) (Fin b) = (a < b)"
| "js_lt _ NegInf = False"
| "js_lt NegInf _ = True"
| "js_lt PosInf _ = False"
| "js_lt _ PosInf = True"

definition js_le :: "jsnum \<Rightarrow> jsnum \<Rightarrow> bool" where
  "js_le a b = (a \<noteq> NaN \<and> b \<noteq> NaN \<and> \<not> js_lt b a)"

definition js_ge :: "jsnum \<Rightarrow> jsnum \<Rightarrow> bool" where
  "js_ge a b = (a \<noteq> NaN \<and> b \<noteq> NaN \<and> \<not> js_lt a b)"

text \<open>
  \<open>Math.min(...xs)\<close> and \<open>Math.max(...xs)\<close>: \<open>NaN\<close> as soon as one argument is, and
  \<open>Infinity\<close> and \<open>-Infinity\<close> on no argument.
\<close>

definition js_min :: "jsnum \<Rightarrow> jsnum \<Rightarrow> jsnum" where
  "js_min a b = (if a = NaN \<or> b = NaN then NaN else if js_lt b a then b else a)"

definition js_max :: "jsnum \<Rightarrow> jsnum \<Rightarrow> jsnum" where
  "js_max a b = (if a = NaN \<or> b = NaN then NaN else if js_lt a b then b else a)"

definition Math_min :: "jsnum list \<Rightarrow> jsnum" where
  "Math_min xs = foldl js_min PosInf xs"

definition Math_max :: "jsnum list \<Rightarrow> jsnum" where
  "Math_max xs = foldl js_max NegInf xs"

text \<open>
  The value of a numeric literal that lies outside the range of the doubles: it is 0 up
  to half of the least positive double, and an infinity from the greatest double plus
  half of its last place on. Inside the range the value is kept exact.
\<close>

definition double_range :: "rat \<Rightarrow> jsnum" where
  "double_range r =
     (if \<bar>r\<bar> \<le> 1 / 2 ^ 1075 then Fin 0
      else if 2 ^ 1024 - 2 ^ 970 \<le> \<bar>r\<bar> then (if 0 < r then PosInf else NegInf)
      else Fin r)"

text \<open>
  Numeric strings. A string is a list of bytes here, so of the white space that
  JavaScript strips only the ASCII characters are recognised.
\<close>

definition is_space :: "char \<Rightarrow> bool" where
  "is_space c = (c \<in> set [CHR 0x09, CHR 0x0A, CHR 0x0B, CHR 0x0C, CHR 0x0D, CHR '' ''])"

definition is_digit :: "char \<Rightarrow> bool" where
  "is_digit c = (c \<in> set ''0123456789'')"

text \<open>The value of a digit in bases up to 16; 99 for any other character.\<close>

definition digit_of :: "char \<Rightarrow> nat" where
  "digit_of c =
     (let n = (of_char c :: nat) in
      if 48 \<le> n \<and> n \<le> 57 then n - 48
      else if 97 \<le> n \<and> n \<le> 102 then n - 87
      else if 65 \<le> n \<and> n \<le> 70 then n - 55
      else 99)"

definition nat_of_digits :: "nat \<Rightarrow> string \<Rightarrow> nat" where
  "nat_of_digits base ds = foldl (\<lambda>n c. base * n + digit_of c) 0 ds"

definition pow10 :: "int \<Rightarrow> rat" where
  "pow10 e = (if 0 \<le> e then 10 ^ nat e else 1 / 10 ^ nat (- e))"

text \<open>
  An exponent part \<open>e\<close> or \<open>E\<close>, an optional sign and at least one digit, at the
  start of the string: its value and what follows it.
\<close>

definition exponent_part :: "string \<Rightarrow> (int \<times> string) option" where
  "exponent_part s =
     (case s of
        [] \<Rightarrow> None
      | c # t \<Rightarrow>
          if c = CHR ''e'' \<or> c = CHR ''E'' then
            (let (neg, u) =
                   (case t of
                      [] \<Rightarrow> (False, t)
                    | d # v \<Rightarrow>
                        if d = CHR ''-'' then (True, v)
                        else if d = CHR ''+'' then (False, v)
                        else (False, t));
                 ds = takeWhile is_digit u
             in if ds = [] then None
                else Some ((if neg then - int (nat_of_digits 10 ds) else int (nat_of_digits 10 ds)),
                           dropWhile is_digit u))
          else None)"

text \<open>
  The longest prefix that is an unsigned decimal literal (\<open>Infinity\<close>, \<open>12\<close>, \<open>12.\<close>,
  \<open>12.5\<close>, \<open>.5\<close>, each of the last four with an optional exponent part): its value and
  the rest of the string, or \<open>None\<close> when no prefix is one.
\<close>

definition unsigned_decimal :: "string \<Rightarrow> (jsnum \<times> string) option" where
  "unsigned_decimal s =
     (if take 8 s = ''Infinity'' then Some (PosInf, drop 8 s)
      else
        (let ds1 = takeWhile is_digit s;
             r1 = dropWhile is_digit s;
             (dot, ds2, r2) =
               (case r1 of
                  [] \<Rightarrow> (False, [], r1)
                | c # t \<Rightarrow>
                    if c = CHR ''.'' \<and> (ds1 \<noteq> [] \<or> takeWhile is_digit t \<noteq> [])
                    then (True, takeWhile is_digit t, dropWhile is_digit t)
                    else (False, [], r1));
             m = rat_of_nat (nat_of_digits 10 ds1)
                 + rat_of_nat (nat_of_digits 10 ds2) / 10 ^ length ds2
         in if ds1 = [] \<and> \<not> dot then None
            else (case exponent_part r2 of
                    None \<Rightarrow> Some (double_range m, r2)
                  | Some (e, r3) \<Rightarrow> Some (double_range (m * pow10 e), r3))))"

text \<open>The same with an optional sign in front.\<close>

definition signed_decimal :: "string \<Rightarrow> (jsnum \<times> string) option" where
  "signed_decimal s =
     (case s of
        [] \<Rightarrow> None
      | c # t \<Rightarrow>
          if c = CHR ''-'' then map_option (\<lambda>(v, r). (js_neg v, r)) (unsigned_decimal t)
          else if c = CHR ''+'' then unsigned_decimal t
          else unsigned_decimal s)"

text \<open>A literal \<open>0x\<close>, \<open>0o\<close> or \<open>0b\<close>: \<open>None\<close> when the string does not start as one.\<close>

definition radix_digits :: "nat \<Rightarrow> string \<Rightarrow> jsnum" where
  "radix_digits base ds =
     (if ds \<noteq> [] \<and> list_all (\<lambda>c. digit_of c < base) ds
      then double_range (rat_of_nat (nat_of_digits base ds)) else NaN)"

definition non_decimal :: "string \<Rightarrow> jsnum option" where
  "non_decimal s =
     (case s of
        z # x # ds \<Rightarrow>
          if z \<noteq> CHR ''0'' then None
          else if x = CHR ''x'' \<or> x = CHR ''X'' then Some (radix_digits 16 ds)
          else if x = CHR ''o'' \<or> x = CHR ''O'' then Some (radix_digits 8 ds)
          else if x = CHR ''b'' \<or> x = CHR ''B'' then Some (radix_digits 2 ds)
          else None
      | _ \<Rightarrow> None)"

definition trim :: "string \<Rightarrow> string" where
  "trim s = rev (dropWhile is_space (rev (dropWhile is_space s)))"

text \<open>
  The number a string converts to in a comparison with a number: 0 for a blank string,
  the value of a numeric literal that fills the whole string, \<open>NaN\<close> otherwise.
\<close>

definition str_to_number :: "string \<Rightarrow> jsnum" where
  "str_to_number s =
     (let t = trim s in
      if t = [] then Fin 0
      else (case non_decimal t of
              Some v \<Rightarrow> v
            | None \<Rightarrow>
                (case signed_decimal t of
                   None \<Rightarrow> NaN
                 | Some (v, r) \<Rightarrow> if r = [] then v else NaN)))"

fun to_number :: "jsval \<Rightarrow> jsnum" where
  "to_number JUndefined = NaN"
| "to_number JNull = Fin 0"
| "to_number (JBool b) = Fin (if b then 1 else 0)"
| "to_number (JNum r) = Fin r"
| "to_number (JStr s) = str_to_number s"

text \<open>
  \<open>Number.parseFloat\<close> on a string: the decimal literal the string starts with, after
  leading white space, or \<open>NaN\<close>.
\<close>

definition parse_float_str :: "string \<Rightarrow> jsnum" where
  "parse_float_str s =
     (case signed_decimal (dropWhile is_space s) of None \<Rightarrow> NaN | Some (v, r) \<Rightarrow> v)"

text \<open>
  \<open>Number.parseFloat\<close> on a field: the argument is turned into a string first. A number
  prints as a literal that reads back as the same number; \<open>undefined\<close>, \<open>null\<close>,
  \<open>true\<close> and \<open>false\<close> print as words that start no literal.
\<close>

fun parseFloat :: "jsval \<Rightarrow> jsnum" where
  "parseFloat (JNum r) = Fin r"
| "parseFloat (JStr s) = parse_float_str s"
| "parseFloat _ = NaN"

text \<open>A text field inside a template literal: \<open>undefined\<close> prints as that word.\<close>

fun to_string :: "string option \<Rightarrow> string" where
  "to_string None = ''undefined''"
| "to_string (Some s) = s"

text \<open>A natural number in decimal, as \<open>toString()\<close> and a template literal print it.\<close>

function string_of_nat :: "nat \<Rightarrow> string" where
  "string_of_nat n =
     (if n < 10 then [''0123456789'' ! n]
      else string_of_nat (n div 10) @ [''0123456789'' ! (n mod 10)])"
  by pat_completeness auto
termination
  by (relation "measure id") auto

declare string_of_nat.simps [simp del]

text \<open>
  A number as a template literal prints it. \<open>decimal_scale\<close> multiplies by 10 until the
  value is whole and counts the steps; the fuel is more than the steps that a number
  with a finite decimal expansion needs, which every double is. The digits \<open>s\<close>, their
  count \<open>k\<close> and the position \<open>n\<close> of the decimal point are then laid out as
  \<open>Number.prototype.toString\<close> does: plain up to 21 digits before the point and 6
  zeros after it, with an exponent beyond.
\<close>

fun decimal_scale :: "nat \<Rightarrow> rat \<Rightarrow> nat \<Rightarrow> nat \<times> nat" where
  "decimal_scale 0 r m = (nat \<lfloor>r\<rfloor>, m)"
| "decimal_scale (Suc fuel) r m =
     (if r = of_int \<lfloor>r\<rfloor> then (nat \<lfloor>r\<rfloor>, m) else decimal_scale fuel (10 * r) (Suc m))"

definition number_to_string :: "rat \<Rightarrow> string" where
  "number_to_string x =
     (if x = 0 then ''0''
      else
        (let (N, m) =
               decimal_scale (4 * length (string_of_nat (nat (snd (quotient_of x))))) \<bar>x\<bar> 0;
             ds = string_of_nat N;
             s = rev (dropWhile (\<lambda>c. c = CHR ''0'') (rev ds));
             k = int (length s);
             n = int (length ds) - int m;
             e = n - 1;
             exponent = (if 0 \<le> e then ''e+'' else ''e-'') @ string_of_nat (nat \<bar>e\<bar>)
         in (if x < 0 then ''-'' else [])
            @ (if k \<le> n \<and> n \<le> 21 then s @ replicate (nat (n - k)) (CHR ''0'')
               else if 0 < n \<and> n \<le> 21 then take (nat n) s @ ''.'' @ drop (nat n) s
               else if - 6 < n \<and> n \<le> 0 then ''0.'' @ replicate (nat (- n)) (CHR ''0'') @ s
               else if k = 1 then s @ exponent
               else take 1 s @ ''.'' @ drop 1 s @ exponent)))"

fun prim_to_string :: "jsval \<Rightarrow> string" where
  "prim_to_string JUndefined = ''undefined''"
| "prim_to_string JNull = ''null''"
| "prim_to_string (JBool b) = (if b then ''true'' else ''false'')"
| "prim_to_string (JNum r) = number_to_string r"
| "prim_to_string (JStr s) = s"

fun join_commas :: "string list \<Rightarrow> string" where
  "join_commas [] = []"
| "join_commas [x] = x"
| "join_commas (x # y # ys) = x @ '','' @ join_commas (y # ys)"

text \<open>
  Any JSON value inside a template literal; \<open>None\<close> is a thrown \<open>TypeError\<close>. An array
  joins its elements with commas, \<open>null\<close> printing as nothing. An object prints through
  \<open>Object.prototype.toString\<close>, unless it has a key \<open>toString\<close> of its own: the value
  under that key is data, which cannot be called, \<open>valueOf\<close> gives no primitive either
  (inherited it returns the object, as a key of the object it is data again), and the
  conversion throws.
\<close>

fun json_to_string :: "json \<Rightarrow> string option" where
  "json_to_string (JPrim v) = Some (prim_to_string v)"
| "json_to_string (JArr xs) =
     map_option join_commas
       (those (map (\<lambda>x. if x = JPrim JUndefined \<or> x = JPrim JNull then Some []
                           else json_to_string x) xs))"
| "json_to_string (JObj kvs) =
     (if ''toString'' \<in> fst ` set kvs then None else Some ''[object Object]'')"

text \<open>
  What a handler reads from outside the request and the store: \<open>uuidv4()\<close>,
  \<open>new Date().toISOString()\<close>, \<open>Date.now()\<close> in milliseconds and
  \<open>new Date().getFullYear()\<close>.
\<close>

record env =
  env_uuid :: string
  env_iso :: string
  env_now :: nat
  env_year :: nat

subsection \<open>Responses\<close>

text \<open>
  \<open>res.status(c).json({success: true, data: d})\<close> is \<open>Success c d\<close> (\<open>res.json\<close> alone
  answers 200), and \<open>res.status(c).json({success: false, error: m})\<close> is \<open>Failure c m\<close>.
  The spec's NotFound is status 404; its validation and state-conflict errors are status 400.
\<close>

datatype 'a response = Success nat 'a | Failure nat string

subsection \<open>The records of the store\<close>

record project =
  prj_id :: string
  prj_name :: jsval
  prj_category :: jsval
  prj_location :: json
  prj_startDate :: jsval
  prj_endDate :: jsval
  prj_stakeholders :: json
  prj_status :: string
  prj_createdAt :: string
  prj_updatedAt :: string

record upload_file =
  file_name :: string
  file_type :: string
  file_size :: nat
  file_path :: string

record dataUpload =
  upl_id :: string
  upl_projectId :: string
  upl_dataType :: string
  upl_files :: "upload_file list"
  upl_metadata :: json
  upl_status :: string
  upl_createdAt :: string

text \<open>
  A submission starts with seven fields; approve, reject and request-more spread the old
  object and add theirs. A field never written reads \<open>undefined\<close>: \<open>JUndefined\<close>,
  \<open>JPrim JUndefined\<close> or \<open>None\<close>.
\<close>

record verificationSubmission =
  sub_id :: string
  sub_uploadId :: string
  sub_projectId :: string
  sub_status :: string
  sub_submittedAt :: string
  sub_dataType :: string
  sub_metadata :: json
  sub_creditsGenerated :: jsval
  sub_comments :: jsval
  sub_qualityScore :: jsval
  sub_approvedAt :: "string option"
  sub_reason :: jsval
  sub_requiredActions :: json
  sub_rejectedAt :: "string option"
  sub_requestedData :: json
  sub_requestedAt :: "string option"

record carbonCredit =
  crd_id :: string
  crd_projectId :: "string option"
  crd_verificationId :: "string option"
  crd_creditsAmount :: jsval
  crd_methodology :: jsval
  crd_vintage :: json
  crd_description :: jsval
  crd_status :: string
  crd_createdAt :: string
  crd_serialNumber :: string

record stakeholder =
  stk_id :: string
  stk_name :: jsval
  stk_category :: jsval
  stk_contact :: json
  stk_projects :: json
  stk_status :: string
  stk_createdAt :: string

record marketplaceListing =
  lst_id :: string
  lst_creditId :: string
  lst_price :: jsnum
  lst_minimumQuantity :: jsval
  lst_availableQuantity :: jsval
  lst_expiryDate :: jsval
  lst_description :: jsval
  lst_status :: string
  lst_listedAt :: string

record store =
  projects :: "project list"
  dataUploads :: "dataUpload list"
  verificationSubmissions :: "verificationSubmission list"
  carbonCredits :: "carbonCredit list"
  stakeholders :: "stakeholder list"
  marketplaceListings :: "marketplaceListing list"

subsection \<open>Array helpers\<close>

text \<open>
  \<open>findById(array, id)\<close>: the first item with \<open>item.id === id\<close>, if any. The stored ids
  are strings; the id asked for is a string or \<open>undefined\<close>, which equals no string.
\<close>

definition findById :: "('a \<Rightarrow> string) \<Rightarrow> 'a list \<Rightarrow> string option \<Rightarrow> 'a option" where
  "findById idf array i = find (\<lambda>item. Some (idf item) = i) array"

text \<open>\<open>array.findIndex(p)\<close>: the first index whose item satisfies \<open>p\<close>; \<open>None\<close> is \<open>-1\<close>.\<close>

fun findIndex :: "('a \<Rightarrow> bool) \<Rightarrow> 'a list \<Rightarrow> nat option" where
  "findIndex p [] = None"
| "findIndex p (x # xs) =
     (if p x then Some 0 else (case findIndex p xs of None \<Rightarrow> None | Some i \<Rightarrow> Some (Suc i)))"

text \<open>\<open>array.splice(i, 1)\<close> on an index inside the array.\<close>

definition splice1 :: "nat \<Rightarrow> 'a list \<Rightarrow> 'a list" where
  "splice1 i xs = take i xs @ drop (Suc i) xs"

subsection \<open>DELETE /projects/:id and DELETE /data/uploads/:id\<close>

definition delete_project :: "string \<Rightarrow> store \<Rightarrow> string response \<times> store" where
  "delete_project rid st =
     (case findIndex (\<lambda>p. prj_id p = rid) (projects st) of
        None \<Rightarrow> (Failure 404 ''Project not found'', st)
      | Some projectIndex \<Rightarrow>
          (Success 200 ''Project deleted successfully'',
           st\<lparr>projects := splice1 projectIndex (projects st)\<rparr>))"

definition delete_upload :: "string \<Rightarrow> store \<Rightarrow> string response \<times> store" where
  "delete_upload rid st =
     (case findIndex (\<lambda>u. upl_id u = rid) (dataUploads st) of
        None \<Rightarrow> (Failure 404 ''Upload not found'', st)
      | Some uploadIndex \<Rightarrow>
          (Success 200 ''Upload deleted successfully'',
           st\<lparr>dataUploads := splice1 uploadIndex (dataUploads st)\<rparr>))"

text \<open>
  The other four collections have no DELETE route: such a request reaches the final
  \<open>app.use\<close> handler, which answers 404 and touches nothing.
\<close>

definition endpoint_not_found :: "store \<Rightarrow> string response \<times> store" where
  "endpoint_not_found st = (Failure 404 ''Endpoint not found'', st)"

datatype entity_type =
  Project | DataUpload | VerificationSubmission | CarbonCredit | Stakeholder | MarketplaceListing

fun delete_entity :: "entity_type \<Rightarrow> string \<Rightarrow> store \<Rightarrow> string response \<times> store" where
  "delete_entity Project rid st = delete_project rid st"
| "delete_entity DataUpload rid st = delete_upload rid st"
| "delete_entity _ rid st = endpoint_not_found st"

text \<open>The ids a collection of the store holds.\<close>

fun ids_of :: "entity_type \<Rightarrow> store \<Rightarrow> string set" where
  "ids_of Project st = prj_id ` set (projects st)"
| "ids_of DataUpload st = upl_id ` set (dataUploads st)"
| "ids_of VerificationSubmission st = sub_id ` set (verificationSubmissions st)"
| "ids_of CarbonCredit st = crd_id ` set (carbonCredits st)"
| "ids_of Stakeholder st = stk_id ` set (stakeholders st)"
| "ids_of MarketplaceListing st = lst_id ` set (marketplaceListings st)"

subsection \<open>POST /data/uploads/:id/verify\<close>

text \<open>
  \<open>upload.status = ...\<close> assigns to the object that \<open>find\<close> returned, which is the
  first item of the array that satisfies the predicate: the array afterwards.
\<close>

fun assign_first :: "('a \<Rightarrow> bool) \<Rightarrow> ('a \<Rightarrow> 'a) \<Rightarrow> 'a list \<Rightarrow> 'a list" where
  "assign_first p f [] = []"
| "assign_first p f (x # xs) = (if p x then f x # xs else x # assign_first p f xs)"

definition submit :: "env \<Rightarrow> string \<Rightarrow> store \<Rightarrow> verificationSubmission response \<times> store" where
  "submit e rid st =
     (case findById upl_id (dataUploads st) (Some rid) of
        None \<Rightarrow> (Failure 404 ''Upload not found'', st)
      | Some upload \<Rightarrow>
          (let submission =
                 \<lparr>sub_id = ''SUB-'' @ take 8 (env_uuid e),
                  sub_uploadId = upl_id upload,
                  sub_projectId = upl_projectId upload,
                  sub_status = ''pending'',
                  sub_submittedAt = env_iso e,
                  sub_dataType = upl_dataType upload,
                  sub_metadata = upl_metadata upload,
                  sub_creditsGenerated = JUndefined,
                  sub_comments = JUndefined,
                  sub_qualityScore = JUndefined,
                  sub_approvedAt = None,
                  sub_reason = JUndefined,
                  sub_requiredActions = JPrim JUndefined,
                  sub_rejectedAt = None,
                  sub_requestedData = JPrim JUndefined,
                  sub_requestedAt = None\<rparr>
           in (Success 200 submission,
               st\<lparr>verificationSubmissions := verificationSubmissions st @ [submission],
                  dataUploads :=
                    assign_first (\<lambda>item. Some (upl_id item) = Some rid)
                      (\<lambda>u. u\<lparr>upl_status := ''submitted_for_verification''\<rparr>)
                      (dataUploads st)\<rparr>)))"

subsection \<open>POST /verification/submissions/:id/approve, /reject and /request-more\<close>

record approve_body =
  ab_creditsGenerated :: jsval
  ab_comments :: jsval
  ab_qualityScore :: jsval

definition approve ::
  "env \<Rightarrow> string \<Rightarrow> approve_body \<Rightarrow> store \<Rightarrow> verificationSubmission response \<times> store" where
  "approve e rid body st =
     (case findIndex (\<lambda>s. sub_id s = rid) (verificationSubmissions st) of
        None \<Rightarrow> (Failure 404 ''Submission not found'', st)
      | Some submissionIndex \<Rightarrow>
          (let updated =
                 (verificationSubmissions st ! submissionIndex)
                   \<lparr>sub_status := ''approved'',
                    sub_creditsGenerated :=
                      (if truthy (ab_creditsGenerated body) then ab_creditsGenerated body
                       else JNum 0),
                    sub_comments := ab_comments body,
                    sub_qualityScore := ab_qualityScore body,
                    sub_approvedAt := Some (env_iso e)\<rparr>
           in (Success 200 updated,
               st\<lparr>verificationSubmissions :=
                    (verificationSubmissions st)[submissionIndex := updated]\<rparr>)))"

record reject_body =
  rb_reason :: jsval
  rb_comments :: jsval
  rb_requiredActions :: json

definition reject ::
  "env \<Rightarrow> string \<Rightarrow> reject_body \<Rightarrow> store \<Rightarrow> verificationSubmission response \<times> store" where
  "reject e rid body st =
     (case findIndex (\<lambda>s. sub_id s = rid) (verificationSubmissions st) of
        None \<Rightarrow> (Failure 404 ''Submission not found'', st)
      | Some submissionIndex \<Rightarrow>
          (let updated =
                 (verificationSubmissions st ! submissionIndex)
                   \<lparr>sub_status := ''rejected'',
                    sub_reason := rb_reason body,
                    sub_comments := rb_comments body,
                    sub_requiredActions :=
                      (if truthy_json (rb_requiredActions body) then rb_requiredActions body
                       else JArr []),
                    sub_rejectedAt := Some (env_iso e)\<rparr>
           in (Success 200 updated,
               st\<lparr>verificationSubmissions :=
                    (verificationSubmissions st)[submissionIndex := updated]\<rparr>)))"

record request_more_body =
  mb_requestedData :: json
  mb_comments :: jsval

definition requestMoreData ::
  "env \<Rightarrow> string \<Rightarrow> request_more_body \<Rightarrow> store \<Rightarrow> verificationSubmission response \<times> store" where
  "requestMoreData e rid body st =
     (case findIndex (\<lambda>s. sub_id s = rid) (verificationSubmissions st) of
        None \<Rightarrow> (Failure 404 ''Submission not found'', st)
      | Some submissionIndex \<Rightarrow>
          (let updated =
                 (verificationSubmissions st ! submissionIndex)
                   \<lparr>sub_status := ''more_data_requested'',
                    sub_requestedData :=
                      (if truthy_json (mb_requestedData body) then mb_requestedData body
                       else JArr []),
                    sub_comments := mb_comments body,
                    sub_requestedAt := Some (env_iso e)\<rparr>
           in (Success 200 updated,
               st\<lparr>verificationSubmissions :=
                    (verificationSubmissions st)[submissionIndex := updated]\<rparr>)))"

subsection \<open>POST /credits/generate\<close>

record generate_body =
  gb_projectId :: "string option"
  gb_verificationId :: "string option"
  gb_creditsAmount :: jsval
  gb_methodology :: jsval
  gb_vintage :: json
  gb_description :: jsval

text \<open>
  The project id and the verification id are strings or absent; the vintage is any JSON
  value. The fields of the credit are evaluated in order. The serial number interpolates
  the vintage of the request, not the defaulted one, and that conversion is the one step
  that can throw: the handler is then left before the \<open>push\<close>, and the error middleware
  of the application answers 500 with \<open>Internal server error\<close>.
\<close>

definition issueCredit :: "env \<Rightarrow> generate_body \<Rightarrow> store \<Rightarrow> carbonCredit response \<times> store" where
  "issueCredit e body st =
     (if \<not> truthy_str (gb_projectId body) \<or> \<not> truthy_str (gb_verificationId body)
         \<or> \<not> truthy (gb_creditsAmount body)
      then (Failure 400 ''Project ID, verification ID, and credits amount are required'', st)
      else
        (case findById prj_id (projects st) (gb_projectId body) of
           None \<Rightarrow> (Failure 404 ''Project not found'', st)
         | Some project \<Rightarrow>
             (case findById sub_id (verificationSubmissions st) (gb_verificationId body) of
                None \<Rightarrow> (Failure 400 ''Valid approved verification required'', st)
              | Some verification \<Rightarrow>
                  if sub_status verification \<noteq> ''approved''
                  then (Failure 400 ''Valid approved verification required'', st)
                  else
                    (case json_to_string (gb_vintage body) of
                       None \<Rightarrow> (Failure 500 ''Internal server error'', st)
                     | Some vintage_text \<Rightarrow>
                         (let credit =
                                \<lparr>crd_id = ''CRD-'' @ take 8 (env_uuid e),
                                 crd_projectId = gb_projectId body,
                                 crd_verificationId = gb_verificationId body,
                                 crd_creditsAmount = gb_creditsAmount body,
                                 crd_methodology =
                                   (if truthy (gb_methodology body) then gb_methodology body
                                    else JStr ''VM0033''),
                                 crd_vintage =
                                   (if truthy_json (gb_vintage body) then gb_vintage body
                                    else JPrim (JStr (string_of_nat (env_year e)))),
                                 crd_description = gb_description body,
                                 crd_status = ''active'',
                                 crd_createdAt = env_iso e,
                                 crd_serialNumber =
                                   to_string (gb_projectId body) @ ''-'' @ vintage_text
                                   @ ''-'' @ string_of_nat (env_now e)\<rparr>
                          in (Success 201 credit,
                              st\<lparr>carbonCredits := carbonCredits st @ [credit]\<rparr>))))))"

subsection \<open>GET /marketplace/credits\<close>

text \<open>
  The query parameters are strings or absent. The category of a listing is reached through
  its credit and that credit's project; \<open>project?.category\<close> is \<open>undefined\<close> when
  either is missing.
\<close>

definition listing_category :: "store \<Rightarrow> marketplaceListing \<Rightarrow> jsval" where
  "listing_category st listing =
     (let credit = findById crd_id (carbonCredits st) (Some (lst_creditId listing));
          project = (case credit of
                       None \<Rightarrow> None
                     | Some c \<Rightarrow> findById prj_id (projects st) (crd_projectId c))
      in (case project of None \<Rightarrow> JUndefined | Some p \<Rightarrow> prj_category p))"

definition browse ::
  "string option \<Rightarrow> string option \<Rightarrow> string option \<Rightarrow> store
     \<Rightarrow> (marketplaceListing list \<times> nat) response" where
  "browse category minPrice maxPrice st =
     (let l0 = filter (\<lambda>listing. lst_status listing = ''active'') (marketplaceListings st);
          l1 = (if truthy_str category
                then filter (\<lambda>listing. listing_category st listing = JStr (to_string category)) l0
                else l0);
          l2 = (if truthy_str minPrice
                then filter (\<lambda>listing.
                       js_ge (lst_price listing) (parse_float_str (to_string minPrice))) l1
                else l1);
          l3 = (if truthy_str maxPrice
                then filter (\<lambda>listing.
                       js_le (lst_price listing) (parse_float_str (to_string maxPrice))) l2
                else l2)
      in Success 200 (l3, length l3))"

subsection \<open>POST /marketplace/credits/:id/list\<close>

record list_body =
  lb_price :: jsval
  lb_minimumQuantity :: jsval
  lb_expiryDate :: jsval
  lb_description :: jsval

definition listCredit ::
  "env \<Rightarrow> string \<Rightarrow> list_body \<Rightarrow> store \<Rightarrow> marketplaceListing response \<times> store" where
  "listCredit e rid body st =
     (case findById crd_id (carbonCredits st) (Some rid) of
        None \<Rightarrow> (Failure 404 ''Credit not found'', st)
      | Some credit \<Rightarrow>
          if \<not> truthy (lb_price body) \<or> js_le (to_number (lb_price body)) (Fin 0)
          then (Failure 400 ''Valid price is required'', st)
          else
            (let listing =
                   \<lparr>lst_id = ''LST-'' @ take 8 (env_uuid e),
                    lst_creditId = crd_id credit,
                    lst_price = parseFloat (lb_price body),
                    lst_minimumQuantity =
                      (if truthy (lb_minimumQuantity body) then lb_minimumQuantity body
                       else JNum 1),
                    lst_availableQuantity = crd_creditsAmount credit,
                    lst_expiryDate = lb_expiryDate body,
                    lst_description = lb_description body,
                    lst_status = ''active'',
                    lst_listedAt = env_iso e\<rparr>
             in (Success 201 listing,
                 st\<lparr>marketplaceListings := marketplaceListings st @ [listing]\<rparr>)))"

subsection \<open>GET /marketplace/prices\<close>

record price_range =
  low :: nat
  medium :: nat
  high :: nat

record price_stats =
  averagePrice :: jsnum
  minPrice :: jsnum
  maxPrice :: jsnum
  totalListings :: nat
  priceRange :: price_range

definition priceStats :: "store \<Rightarrow> price_stats response" where
  "priceStats st =
     (let activeListing = filter (\<lambda>l. lst_status l = ''active'') (marketplaceListings st);
          prices = map lst_price activeListing
      in Success 200
           \<lparr>averagePrice =
              (if 0 < length prices
               then js_div_length (foldl js_add (Fin 0) prices) (length prices) else Fin 0),
            minPrice = (if 0 < length prices then Math_min prices else Fin 0),
            maxPrice = (if 0 < length prices then Math_max prices else Fin 0),
            totalListings = length activeListing,
            priceRange =
              \<lparr>low = length (filter (\<lambda>p. js_lt p (Fin 10)) prices),
               medium = length (filter (\<lambda>p. js_ge p (Fin 10) \<and> js_lt p (Fin 20)) prices),
               high = length (filter (\<lambda>p. js_ge p (Fin 20)) prices)\<rparr>\<rparr>)"

subsection \<open>The pre-save hook of the CarbonCredit schema (models/index.js)\<close>

text \<open>\<open>toUpperCase\<close> on the ASCII letters.\<close>

definition to_upper :: "char \<Rightarrow> char" where
  "to_upper c =
     (let n = (of_char c :: nat) in if 97 \<le> n \<and> n \<le> 122 then char_of (n - 32) else c)"

text \<open>
  The hook writes a serial number only into a document that has none. It is given
  \<open>Date.now().toString(36)\<close> and \<open>Math.random().toString(36).substr(2, 5)\<close>, and returns
  the serial number of the document after it.
\<close>

definition carbonCredit_pre_save :: "string \<Rightarrow> string \<Rightarrow> string option \<Rightarrow> string option" where
  "carbonCredit_pre_save timestamp random serialNumber =
     (if \<not> truthy_str serialNumber
      then Some (map to_upper (''CC-'' @ timestamp @ ''-'' @ random))
      else serialNumber)"

subsection \<open>Sample data\<close>

text \<open>
  A store with one project and one upload, and the stores that the workflow makes of it:
  the upload submitted, the submission rejected, the rejected submission approved.
\<close>

definition sample_env :: env where
  "sample_env =
     \<lparr>env_uuid = ''9f8e7d6c-5b4a-4c3d-8e2f-1a0b9c8d7e6f'',
      env_iso = ''2024-05-01T10:00:00.000Z'',
      env_now = 1714557600000,
      env_year = 2024\<rparr>"

definition sample_project :: project where
  "sample_project =
     \<lparr>prj_id = ''PRJ-1a2b3c4d'',
      prj_name = JStr ''Amaravati Green Belt Initiative'',
      prj_category = JStr ''reforestation'',
      prj_location = JObj [(''country'', JPrim (JStr ''India''))],
      prj_startDate = JStr ''2024-01-01'',
      prj_endDate = JStr ''2026-12-31'',
      prj_stakeholders = JArr [],
      prj_status = ''active'',
      prj_createdAt = ''2024-04-01T09:00:00.000Z'',
      prj_updatedAt = ''2024-04-01T09:00:00.000Z''\<rparr>"

definition sample_upload :: dataUpload where
  "sample_upload =
     \<lparr>upl_id = ''UPL-11112222'',
      upl_projectId = ''PRJ-1a2b3c4d'',
      upl_dataType = ''field_survey'',
      upl_files = [],
      upl_metadata = JObj [(''notes'', JPrim (JStr ''plot 7''))],
      upl_status = ''uploaded'',
      upl_createdAt = ''2024-04-02T09:00:00.000Z''\<rparr>"

definition sample_store :: store where
  "sample_store =
     \<lparr>projects = [sample_project],
      dataUploads = [sample_upload],
      verificationSubmissions = [],
      carbonCredits = [],
      stakeholders = [],
      marketplaceListings = []\<rparr>"

definition sample_reject_body :: reject_body where
  "sample_reject_body =
     \<lparr>rb_reason = JStr ''GPS coordinates missing'',
      rb_comments = JUndefined,
      rb_requiredActions = JPrim JUndefined\<rparr>"

definition sample_approve_body :: approve_body where
  "sample_approve_body =
     \<lparr>ab_creditsGenerated = JUndefined,
      ab_comments = JStr ''ok'',
      ab_qualityScore = JNum 92\<rparr>"

definition submitted_store :: store where
  "submitted_store = snd (submit sample_env ''UPL-11112222'' sample_store)"

definition rejected_store :: store where
  "rejected_store = snd (reject sample_env ''SUB-9f8e7d6c'' sample_reject_body submitted_store)"

definition approved_store :: store where
  "approved_store = snd (approve sample_env ''SUB-9f8e7d6c'' sample_approve_body rejected_store)"

definition pending_submission :: verificationSubmission where
  "pending_submission =
     \<lparr>sub_id = ''SUB-9f8e7d6c'',
      sub_uploadId = ''UPL-11112222'',
      sub_projectId = ''PRJ-1a2b3c4d'',
      sub_status = ''pending'',
      sub_submittedAt = ''2024-05-01T10:00:00.000Z'',
      sub_dataType = ''field_survey'',
      sub_metadata = JObj [(''notes'', JPrim (JStr ''plot 7''))],
      sub_creditsGenerated = JUndefined,
      sub_comments = JUndefined,
      sub_qualityScore = JUndefined,
      sub_approvedAt = None,
      sub_reason = JUndefined,
      sub_requiredActions = JPrim JUndefined,
      sub_rejectedAt = None,
      sub_requestedData = JPrim JUndefined,
      sub_requestedAt = None\<rparr>"

text \<open>Requests for a credit on the approved submission, and the credits they make.\<close>

definition sample_request :: generate_body where
  "sample_request =
     \<lparr>gb_projectId = Some ''PRJ-1a2b3c4d'',
      gb_verificationId = Some ''SUB-9f8e7d6c'',
      gb_creditsAmount = JNum 1000,
      gb_methodology = JUndefined,
      gb_vintage = JPrim (JStr ''2024''),
      gb_description = JStr ''First issuance''\<rparr>"

definition issued_credit :: carbonCredit where
  "issued_credit =
     \<lparr>crd_id = ''CRD-9f8e7d6c'',
      crd_projectId = Some ''PRJ-1a2b3c4d'',
      crd_verificationId = Some ''SUB-9f8e7d6c'',
      crd_creditsAmount = JNum 1000,
      crd_methodology = JStr ''VM0033'',
      crd_vintage = JPrim (JStr ''2024''),
      crd_description = JStr ''First issuance'',
      crd_status = ''active'',
      crd_createdAt = ''2024-05-01T10:00:00.000Z'',
      crd_serialNumber = ''PRJ-1a2b3c4d-2024-1714557600000''\<rparr>"

definition issued_store :: store where
  "issued_store = snd (issueCredit sample_env sample_request approved_store)"

definition negative_request :: generate_body where
  "negative_request = sample_request\<lparr>gb_creditsAmount := JNum (- 5)\<rparr>"

definition negative_credit :: carbonCredit where
  "negative_credit = issued_credit\<lparr>crd_creditsAmount := JNum (- 5)\<rparr>"

text \<open>A request whose vintage is the JSON object \<open>{"toString": 1}\<close>.\<close>

definition unprintable_request :: generate_body where
  "unprintable_request =
     sample_request\<lparr>gb_vintage := JObj [(''toString'', JPrim (JNum 1))]\<rparr>"

text \<open>A second request in the same millisecond: only the random id differs.\<close>

definition later_env :: env where
  "later_env = sample_env\<lparr>env_uuid := ''0a1b2c3d-1111-4222-8333-444455556666''\<rparr>"

definition issued_twice :: store where
  "issued_twice = snd (issueCredit later_env sample_request issued_store)"

text \<open>A listing request whose price is not a number, and the listing it makes.\<close>

definition word_price_body :: list_body where
  "word_price_body =
     \<lparr>lb_price = JStr ''abc'',
      lb_minimumQuantity = JUndefined,
      lb_expiryDate = JUndefined,
      lb_description = JUndefined\<rparr>"

definition word_price_listing :: marketplaceListing where
  "word_price_listing =
     \<lparr>lst_id = ''LST-9f8e7d6c'',
      lst_creditId = ''CRD-9f8e7d6c'',
      lst_price = NaN,
      lst_minimumQuantity = JNum 1,
      lst_availableQuantity = JNum 1000,
      lst_expiryDate = JUndefined,
      lst_description = JUndefined,
      lst_status = ''active'',
      lst_listedAt = ''2024-05-01T10:00:00.000Z''\<rparr>"

text \<open>
  A market: two projects with a credit each, three active listings (the third for a
  credit that is not in the store) and one listing that is sold.
\<close>

definition solar_project :: project where
  "solar_project = sample_project\<lparr>prj_id := ''PRJ-5e6f7a8b'', prj_category := JStr ''solar''\<rparr>"

definition solar_credit :: carbonCredit where
  "solar_credit =
     issued_credit\<lparr>crd_id := ''CRD-22223333'', crd_projectId := Some ''PRJ-5e6f7a8b''\<rparr>"

definition forest_listing :: marketplaceListing where
  "forest_listing =
     \<lparr>lst_id = ''LST-aaaa0001'',
      lst_creditId = ''CRD-9f8e7d6c'',
      lst_price = Fin 15,
      lst_minimumQuantity = JNum 1,
      lst_availableQuantity = JNum 1000,
      lst_expiryDate = JUndefined,
      lst_description = JUndefined,
      lst_status = ''active'',
      lst_listedAt = ''2024-05-02T08:00:00.000Z''\<rparr>"

definition solar_listing :: marketplaceListing where
  "solar_listing =
     forest_listing
       \<lparr>lst_id := ''LST-aaaa0002'', lst_creditId := ''CRD-22223333'', lst_price := Fin 25\<rparr>"

definition orphan_listing :: marketplaceListing where
  "orphan_listing =
     forest_listing
       \<lparr>lst_id := ''LST-aaaa0003'', lst_creditId := ''CRD-deadbeef'', lst_price := Fin 5\<rparr>"

definition sold_listing :: marketplaceListing where
  "sold_listing =
     forest_listing\<lparr>lst_id := ''LST-aaaa0004'', lst_price := Fin 100, lst_status := ''sold''\<rparr>"

definition market_store :: store where
  "market_store =
     \<lparr>projects = [sample_project, solar_project],
      dataUploads = [],
      verificationSubmissions = [],
      carbonCredits = [issued_credit, solar_credit],
      stakeholders = [],
      marketplaceListings = [forest_listing, solar_listing, orphan_listing, sold_listing]\<rparr>"

definition closed_market :: store where
  "closed_market = market_store\<lparr>marketplaceListings := [sold_listing]\<rparr>"

section \<open>Properties\<close>

subsection \<open>Array helpers\<close>

lemma findIndex_None_iff: "findIndex p xs = None \<longleftrightarrow> (\<forall>x \<in> set xs. \<not> p x)"
  by (induction xs) (auto split: option.splits)

lemma findIndex_Some_less: "findIndex p xs = Some i \<Longrightarrow> i < length xs \<and> p (xs ! i)"
  by (induction xs arbitrary: i) (auto split: if_splits option.splits)

lemma findById_None_iff: "findById idf xs (Some i) = None \<longleftrightarrow> i \<notin> idf ` set xs"
  by (auto simp: findById_def find_None_iff)

lemma findById_Some_D: "findById idf xs i = Some x \<Longrightarrow> x \<in> set xs \<and> i = Some (idf x)"
  by (auto simp: findById_def find_Some_iff)

lemma find_findIndex:
  "find p xs = (case findIndex p xs of None \<Rightarrow> None | Some i \<Rightarrow> Some (xs ! i))"
  by (induction xs) (auto split: option.splits)

lemma assign_first_findIndex:
  "assign_first p f xs =
     (case findIndex p xs of None \<Rightarrow> xs | Some i \<Rightarrow> xs[i := f (xs ! i)])"
  by (induction xs) (auto split: option.splits)

lemma findById_findIndex:
  "findById idf xs (Some i) = Some x \<Longrightarrow>
     \<exists>k. findIndex (\<lambda>item. idf item = i) xs = Some k \<and> k < length xs \<and> xs ! k = x"
  by (auto simp: findById_def find_findIndex dest: findIndex_Some_less split: option.splits)

subsection \<open>The sample stores, evaluated\<close>

lemma submitted_store_eval:
  "submitted_store =
     sample_store
       \<lparr>dataUploads := [sample_upload\<lparr>upl_status := ''submitted_for_verification''\<rparr>],
        verificationSubmissions := [pending_submission]\<rparr>"
  by (simp add: submitted_store_def submit_def Let_def findById_def sample_store_def
      sample_upload_def sample_env_def pending_submission_def)

lemma rejected_store_eval:
  "rejected_store =
     sample_store
       \<lparr>dataUploads := [sample_upload\<lparr>upl_status := ''submitted_for_verification''\<rparr>],
        verificationSubmissions :=
          [pending_submission
             \<lparr>sub_status := ''rejected'',
              sub_reason := JStr ''GPS coordinates missing'',
              sub_requiredActions := JArr [],
              sub_rejectedAt := Some ''2024-05-01T10:00:00.000Z''\<rparr>]\<rparr>"
  by (simp add: rejected_store_def reject_def Let_def submitted_store_eval
      sample_reject_body_def sample_env_def pending_submission_def sample_store_def)

lemma approved_store_eval:
  "approved_store =
     sample_store
       \<lparr>dataUploads := [sample_upload\<lparr>upl_status := ''submitted_for_verification''\<rparr>],
        verificationSubmissions :=
          [pending_submission
             \<lparr>sub_status := ''approved'',
              sub_creditsGenerated := JNum 0,
              sub_comments := JStr ''ok'',
              sub_qualityScore := JNum 92,
              sub_approvedAt := Some ''2024-05-01T10:00:00.000Z'',
              sub_reason := JStr ''GPS coordinates missing'',
              sub_requiredActions := JArr [],
              sub_rejectedAt := Some ''2024-05-01T10:00:00.000Z''\<rparr>]\<rparr>"
  by (simp add: approved_store_def approve_def Let_def rejected_store_eval
      sample_approve_body_def sample_env_def pending_submission_def sample_store_def)

lemma string_of_sample_now: "string_of_nat 1714557600000 = ''1714557600000''"
  by (simp add: string_of_nat.simps)

lemma issued_store_eval: "issued_store = approved_store\<lparr>carbonCredits := [issued_credit]\<rparr>"
  by (simp add: issued_store_def issueCredit_def Let_def sample_request_def
      approved_store_eval sample_store_def sample_project_def pending_submission_def
      findById_def sample_env_def issued_credit_def string_of_sample_now)

subsection \<open>Deleting what is not there\<close>

text \<open>
  C9. For every entity type, deleting an id that no record of that collection carries
  answers 404 (not found) and returns the store unchanged, so every collection keeps its
  record count.
\<close>

theorem delete_absent_not_found:
  assumes "rid \<notin> ids_of t st"
  shows "\<exists>msg. delete_entity t rid st = (Failure 404 msg, st)"
proof (cases t)
  case Project
  with assms have "findIndex (\<lambda>p. prj_id p = rid) (projects st) = None"
    by (auto simp: findIndex_None_iff)
  with Project show ?thesis by (simp add: delete_project_def)
next
  case DataUpload
  with assms have "findIndex (\<lambda>u. upl_id u = rid) (dataUploads st) = None"
    by (auto simp: findIndex_None_iff)
  with DataUpload show ?thesis by (simp add: delete_upload_def)
qed (simp_all add: endpoint_not_found_def)

theorem delete_absent_not_found_witness:
  "''PRJ-00000000'' \<notin> ids_of Project sample_store
   \<and> (\<exists>msg. delete_entity Project ''PRJ-00000000'' sample_store = (Failure 404 msg, sample_store))
   \<and> ''STK-00000000'' \<notin> ids_of Stakeholder sample_store
   \<and> (\<exists>msg. delete_entity Stakeholder ''STK-00000000'' sample_store
              = (Failure 404 msg, sample_store))
   \<and> length (projects (snd (delete_entity Project ''PRJ-00000000'' sample_store))) = 1"
  using delete_absent_not_found [of "''PRJ-00000000''" Project sample_store]
        delete_absent_not_found [of "''STK-00000000''" Stakeholder sample_store]
  by (auto simp add: sample_store_def sample_project_def)

subsection \<open>Submitting an upload for verification\<close>

text \<open>
  C3. When \<open>findById\<close> finds the upload, the request answers 200 with a new submission
  that is appended, alone, to the submissions; the submission is pending, refers to the
  upload and carries its project id, data type and metadata; in the uploads, the upload
  that was found has its status set to \<open>submitted_for_verification\<close> and nothing else
  changes. When no upload has the id, the request answers 404 and the store is unchanged.
\<close>

theorem submit_creates_pending_submission:
  "(\<forall>u. findById upl_id (dataUploads st) (Some rid) = Some u \<longrightarrow>
      (\<exists>i sub. submit e rid st =
           (Success 200 sub,
            st\<lparr>verificationSubmissions := verificationSubmissions st @ [sub],
               dataUploads :=
                 (dataUploads st)[i := u\<lparr>upl_status := ''submitted_for_verification''\<rparr>]\<rparr>)
         \<and> i < length (dataUploads st) \<and> dataUploads st ! i = u \<and> upl_id u = rid
         \<and> sub_status sub = ''pending'' \<and> sub_uploadId sub = rid
         \<and> sub_projectId sub = upl_projectId u \<and> sub_dataType sub = upl_dataType u
         \<and> sub_metadata sub = upl_metadata u))
   \<and> (findById upl_id (dataUploads st) (Some rid) = None \<longrightarrow>
        submit e rid st = (Failure 404 ''Upload not found'', st))"
proof (intro conjI allI impI)
  fix u assume found: "findById upl_id (dataUploads st) (Some rid) = Some u"
  then obtain k where k: "findIndex (\<lambda>item. upl_id item = rid) (dataUploads st) = Some k"
    "k < length (dataUploads st)" "dataUploads st ! k = u"
    using findById_findIndex by fastforce
  from found have "upl_id u = rid" by (auto dest: findById_Some_D)
  with found k show "\<exists>i sub. submit e rid st =
           (Success 200 sub,
            st\<lparr>verificationSubmissions := verificationSubmissions st @ [sub],
               dataUploads :=
                 (dataUploads st)[i := u\<lparr>upl_status := ''submitted_for_verification''\<rparr>]\<rparr>)
         \<and> i < length (dataUploads st) \<and> dataUploads st ! i = u \<and> upl_id u = rid
         \<and> sub_status sub = ''pending'' \<and> sub_uploadId sub = rid
         \<and> sub_projectId sub = upl_projectId u \<and> sub_dataType sub = upl_dataType u
         \<and> sub_metadata sub = upl_metadata u"
    by (intro exI [of _ k]) (simp add: submit_def Let_def assign_first_findIndex)
next
  assume "findById upl_id (dataUploads st) (Some rid) = None"
  then show "submit e rid st = (Failure 404 ''Upload not found'', st)"
    by (simp add: submit_def)
qed

theorem submit_creates_pending_submission_witness:
  "findById upl_id (dataUploads sample_store) (Some ''UPL-11112222'') = Some sample_upload
   \<and> (\<exists>sub. submit sample_env ''UPL-11112222'' sample_store =
         (Success 200 sub,
          sample_store
            \<lparr>verificationSubmissions := [sub],
             dataUploads := [sample_upload\<lparr>upl_status := ''submitted_for_verification''\<rparr>]\<rparr>)
         \<and> sub_status sub = ''pending'' \<and> sub_uploadId sub = ''UPL-11112222''
         \<and> sub_projectId sub = ''PRJ-1a2b3c4d'')
   \<and> findById upl_id (dataUploads sample_store) (Some ''UPL-00000000'') = None
   \<and> submit sample_env ''UPL-00000000'' sample_store
       = (Failure 404 ''Upload not found'', sample_store)"
  using submit_creates_pending_submission [of sample_store "''UPL-11112222''" sample_env]
        submit_creates_pending_submission [of sample_store "''UPL-00000000''" sample_env]
  by (auto simp add: findById_def sample_store_def sample_upload_def)

subsection \<open>Approving a submission\<close>

text \<open>
  C4. Approval answers 404 exactly when no submission carries the id. On a submission
  that exists it answers 200 whatever the status was: the first submission with the id
  is replaced by one with status \<open>approved\<close>, the credits generated of the request (0
  when that is falsy), its quality score and the time of approval. A rejected submission
  is approved like any other.
\<close>

theorem approve_not_found_iff_absent:
  "(rid \<notin> sub_id ` set (verificationSubmissions st) \<longrightarrow>
      approve e rid body st = (Failure 404 ''Submission not found'', st))
   \<and> (rid \<in> sub_id ` set (verificationSubmissions st) \<longrightarrow>
        (\<exists>i s. i < length (verificationSubmissions st)
           \<and> sub_id (verificationSubmissions st ! i) = rid
           \<and> approve e rid body st =
               (Success 200 s,
                st\<lparr>verificationSubmissions := (verificationSubmissions st)[i := s]\<rparr>)
           \<and> sub_id s = rid
           \<and> sub_status s = ''approved''
           \<and> sub_creditsGenerated s =
               (if truthy (ab_creditsGenerated body) then ab_creditsGenerated body else JNum 0)
           \<and> sub_qualityScore s = ab_qualityScore body
           \<and> sub_approvedAt s = Some (env_iso e)))"
proof (intro conjI impI)
  assume "rid \<notin> sub_id ` set (verificationSubmissions st)"
  then have "findIndex (\<lambda>s. sub_id s = rid) (verificationSubmissions st) = None"
    by (auto simp: findIndex_None_iff)
  then show "approve e rid body st = (Failure 404 ''Submission not found'', st)"
    by (simp add: approve_def)
next
  assume "rid \<in> sub_id ` set (verificationSubmissions st)"
  then have "findIndex (\<lambda>s. sub_id s = rid) (verificationSubmissions st) \<noteq> None"
    by (auto simp: findIndex_None_iff)
  then obtain k where k: "findIndex (\<lambda>s. sub_id s = rid) (verificationSubmissions st) = Some k"
    by blast
  from findIndex_Some_less [OF k]
  have "k < length (verificationSubmissions st)" "sub_id (verificationSubmissions st ! k) = rid"
    by simp_all
  with k show "\<exists>i s. i < length (verificationSubmissions st)
           \<and> sub_id (verificationSubmissions st ! i) = rid
           \<and> approve e rid body st =
               (Success 200 s,
                st\<lparr>verificationSubmissions := (verificationSubmissions st)[i := s]\<rparr>)
           \<and> sub_id s = rid
           \<and> sub_status s = ''approved''
           \<and> sub_creditsGenerated s =
               (if truthy (ab_creditsGenerated body) then ab_creditsGenerated body else JNum 0)
           \<and> sub_qualityScore s = ab_qualityScore body
           \<and> sub_approvedAt s = Some (env_iso e)"
    by (intro exI [of _ k]) (simp add: approve_def Let_def)
qed

theorem approve_not_found_iff_absent_witness:
  "''SUB-00000000'' \<notin> sub_id ` set (verificationSubmissions rejected_store)
   \<and> approve sample_env ''SUB-00000000'' sample_approve_body rejected_store
       = (Failure 404 ''Submission not found'', rejected_store)
   \<and> ''SUB-9f8e7d6c'' \<in> sub_id ` set (verificationSubmissions rejected_store)
   \<and> map sub_status (verificationSubmissions rejected_store) = [''rejected'']
   \<and> (\<exists>s. fst (approve sample_env ''SUB-9f8e7d6c'' sample_approve_body rejected_store)
             = Success 200 s
          \<and> sub_status s = ''approved'' \<and> sub_creditsGenerated s = JNum 0
          \<and> sub_qualityScore s = JNum 92)"
  using approve_not_found_iff_absent
          [of "''SUB-00000000''" rejected_store sample_env sample_approve_body]
        approve_not_found_iff_absent
          [of "''SUB-9f8e7d6c''" rejected_store sample_env sample_approve_body]
  by (auto simp add: rejected_store_eval sample_approve_body_def sample_store_def
      pending_submission_def)

subsection \<open>Issuing a credit\<close>

lemma json_to_string_prim: "json_to_string (JPrim v) \<noteq> None"
  by simp

text \<open>
  What the handler does whenever the vintage of the request can be converted to a
  string, which every absent, \<open>null\<close>, boolean, numeric or string vintage can: for a
  request whose project id, verification id and credits amount are present (truthy) and
  whose project is in the store, it answers 201 exactly when the verification it names
  is in the store with status \<open>approved\<close>, and then the new credit is appended to the
  credits and nothing else changes; for any other status, and for a verification that is
  not in the store, it answers 400 with \<open>Valid approved verification required\<close> and the
  store is unchanged.
\<close>

lemma issueCredit_approved_gate:
  assumes "truthy_str (gb_projectId body)" and "truthy_str (gb_verificationId body)"
    and "truthy (gb_creditsAmount body)"
    and "findById prj_id (projects st) (gb_projectId body) = Some p"
    and "json_to_string (gb_vintage body) \<noteq> None"
  shows "((\<exists>c st'. issueCredit e body st = (Success 201 c, st'))
           \<longleftrightarrow> (\<exists>v. findById sub_id (verificationSubmissions st) (gb_verificationId body)
                        = Some v
                    \<and> sub_status v = ''approved''))
    \<and> ((\<exists>v. findById sub_id (verificationSubmissions st) (gb_verificationId body) = Some v
             \<and> sub_status v = ''approved'') \<longrightarrow>
          (\<exists>c. issueCredit e body st
                  = (Success 201 c, st\<lparr>carbonCredits := carbonCredits st @ [c]\<rparr>)
              \<and> crd_projectId c = gb_projectId body
              \<and> crd_verificationId c = gb_verificationId body))
    \<and> (\<not> (\<exists>v. findById sub_id (verificationSubmissions st) (gb_verificationId body) = Some v
             \<and> sub_status v = ''approved'') \<longrightarrow>
          issueCredit e body st = (Failure 400 ''Valid approved verification required'', st))"
  using assms
  by (auto simp add: issueCredit_def Let_def split: option.splits)

text \<open>
  A verification that is not approved is refused whatever the vintage is: the check
  comes before the credit is built.
\<close>

lemma issueCredit_refuses_unapproved:
  assumes "truthy_str (gb_projectId body)" and "truthy_str (gb_verificationId body)"
    and "truthy (gb_creditsAmount body)"
    and "findById prj_id (projects st) (gb_projectId body) = Some p"
    and "\<not> (\<exists>v. findById sub_id (verificationSubmissions st) (gb_verificationId body) = Some v
             \<and> sub_status v = ''approved'')"
  shows "issueCredit e body st = (Failure 400 ''Valid approved verification required'', st)"
  using assms
  by (auto simp add: issueCredit_def Let_def split: option.splits)

text \<open>
  C1. The request supplies the project id, the verification id and the credits amount,
  its project is in the store and its verification is in the store with status
  \<open>approved\<close>, and yet it does not succeed: its vintage is the object
  \<open>{"toString": 1}\<close>, converting it for the serial number throws, the answer is 500 and
  no credit is stored.
\<close>

theorem issueCredit_throws_on_object_vintage:
  "truthy_str (gb_projectId unprintable_request)
   \<and> truthy_str (gb_verificationId unprintable_request)
   \<and> truthy (gb_creditsAmount unprintable_request)
   \<and> findById prj_id (projects approved_store) (gb_projectId unprintable_request)
       = Some sample_project
   \<and> map sub_id (verificationSubmissions approved_store) = [''SUB-9f8e7d6c'']
   \<and> map sub_status (verificationSubmissions approved_store) = [''approved'']
   \<and> issueCredit sample_env unprintable_request approved_store
       = (Failure 500 ''Internal server error'', approved_store)"
  by (simp add: issueCredit_def unprintable_request_def sample_request_def
      approved_store_eval sample_store_def sample_project_def pending_submission_def
      findById_def)

theorem issueCredit_throws_on_object_vintage_witness:
  "fst (issueCredit sample_env unprintable_request approved_store)
     = Failure 500 ''Internal server error''
   \<and> carbonCredits (snd (issueCredit sample_env unprintable_request approved_store)) = []"
  using issueCredit_throws_on_object_vintage
  by (simp add: approved_store_eval sample_store_def)

text \<open>
  What the handler checks of the credits amount is that it is present: a request whose
  amount is falsy (absent, \<open>null\<close>, \<open>false\<close>, 0 or the empty string) answers 400 with
  the message that the three fields are required, and a credit that is stored carries
  the amount of the request, which is truthy.
\<close>

lemma issueCredit_amount_presence_check:
  "(\<not> truthy (gb_creditsAmount body) \<longrightarrow>
      issueCredit e body st
        = (Failure 400 ''Project ID, verification ID, and credits amount are required'', st))
   \<and> (\<forall>code c st'. issueCredit e body st = (Success code c, st') \<longrightarrow>
         carbonCredits st' = carbonCredits st @ [c]
         \<and> crd_creditsAmount c = gb_creditsAmount body
         \<and> truthy (crd_creditsAmount c)
         \<and> (\<forall>r. crd_creditsAmount c = JNum r \<longrightarrow> r \<noteq> 0))"
  by (auto simp add: issueCredit_def Let_def split: option.splits if_splits)

text \<open>
  C8. A request for \<open>-5\<close> credits on an approved verification is not refused: it
  answers 201 and the credit is stored with the amount \<open>-5\<close>, which is not greater
  than 0.
\<close>

theorem issueCredit_accepts_negative_amount:
  "issueCredit sample_env negative_request approved_store
     = (Success 201 negative_credit, approved_store\<lparr>carbonCredits := [negative_credit]\<rparr>)
   \<and> crd_creditsAmount negative_credit = JNum (- 5)
   \<and> \<not> js_lt (Fin 0) (to_number (crd_creditsAmount negative_credit))"
  by (simp add: issueCredit_def Let_def negative_request_def sample_request_def
      approved_store_eval sample_store_def sample_project_def pending_submission_def
      findById_def sample_env_def negative_credit_def issued_credit_def string_of_sample_now)

theorem issueCredit_accepts_negative_amount_witness:
  "map crd_creditsAmount
     (carbonCredits (snd (issueCredit sample_env negative_request approved_store)))
     = [JNum (- 5)]
   \<and> fst (issueCredit sample_env negative_request approved_store)
       \<noteq> Failure 400 ''Project ID, verification ID, and credits amount are required''"
  using issueCredit_accepts_negative_amount
  by (simp add: negative_credit_def issued_credit_def)

subsection \<open>Serial numbers\<close>

text \<open>
  No handler rewrites a stored credit: every handler but \<open>issueCredit\<close> returns the
  credits it read, and \<open>issueCredit\<close> appends to them.
\<close>

lemma credits_only_appended:
  "carbonCredits (snd (delete_project rid st)) = carbonCredits st"
  "carbonCredits (snd (delete_upload rid st)) = carbonCredits st"
  "carbonCredits (snd (submit e rid st)) = carbonCredits st"
  "carbonCredits (snd (approve e rid ab st)) = carbonCredits st"
  "carbonCredits (snd (reject e rid rb st)) = carbonCredits st"
  "carbonCredits (snd (requestMoreData e rid mb st)) = carbonCredits st"
  "carbonCredits (snd (listCredit e rid lb st)) = carbonCredits st"
  "\<exists>new. carbonCredits (snd (issueCredit e gb st)) = carbonCredits st @ new"
  by (simp_all add: delete_project_def delete_upload_def submit_def approve_def reject_def
      requestMoreData_def listCredit_def issueCredit_def Let_def split: option.splits)

text \<open>The schema's hook leaves a serial number that is set as it is, on every later save.\<close>

lemma pre_save_keeps_serial:
  assumes "truthy_str serialNumber"
  shows "carbonCredit_pre_save timestamp random serialNumber = serialNumber"
  using assms by (simp add: carbonCredit_pre_save_def)

lemma pre_save_once:
  "carbonCredit_pre_save t2 r2 (carbonCredit_pre_save t1 r1 serialNumber)
     = carbonCredit_pre_save t1 r1 serialNumber"
  by (simp add: carbonCredit_pre_save_def)

text \<open>
  In the server, two accepted requests with the same project id and vintage that read
  the same \<open>Date.now()\<close> make credits with the same serial number, whatever else they
  hold and whatever the stores are.
\<close>

lemma same_millisecond_same_serial:
  assumes "issueCredit e1 b1 st1 = (Success code1 c1, st1')"
    and "issueCredit e2 b2 st2 = (Success code2 c2, st2')"
    and "gb_projectId b1 = gb_projectId b2" and "gb_vintage b1 = gb_vintage b2"
    and "env_now e1 = env_now e2"
  shows "crd_serialNumber c1 = crd_serialNumber c2"
  using assms
  by (auto simp add: issueCredit_def Let_def split: option.splits if_splits)

text \<open>
  C2. The serial number is the project id, the vintage of the request and \<open>Date.now()\<close>.
  Two requests for the same project and vintage that are handled in the same millisecond
  store two credits, with different ids and the same serial number.
\<close>

theorem serial_number_collision:
  "map crd_id (carbonCredits issued_twice) = [''CRD-9f8e7d6c'', ''CRD-0a1b2c3d'']
   \<and> map crd_serialNumber (carbonCredits issued_twice)
       = [''PRJ-1a2b3c4d-2024-1714557600000'', ''PRJ-1a2b3c4d-2024-1714557600000'']"
  by (simp add: issued_twice_def issueCredit_def Let_def sample_request_def later_env_def
      issued_store_eval approved_store_eval sample_store_def sample_project_def
      pending_submission_def findById_def sample_env_def issued_credit_def
      string_of_sample_now)

theorem serial_number_collision_witness:
  "\<not> distinct (map crd_serialNumber (carbonCredits issued_twice))"
  using serial_number_collision by simp

subsection \<open>Price statistics\<close>

lemma mset_three:
  assumes "mset xs = {#a, b, c#}"
  shows "xs \<in> {[a, b, c], [a, c, b], [b, a, c], [b, c, a], [c, a, b], [c, b, a]}"
proof -
  from assms have "length xs = 3"
    by (metis size_mset size_add_mset size_empty numeral_3_eq_3)
  then obtain x y z where xs: "xs = [x, y, z]"
    by (auto simp: numeral_3_eq_3 length_Suc_conv)
  with assms show ?thesis
    by (auto simp: add_eq_conv_ex)
qed

lemma priceStats_of_prices:
  assumes "map lst_price (filter (\<lambda>l. lst_status l = ''active'') (marketplaceListings st)) = ps"
  shows "priceStats st =
     Success 200
       \<lparr>averagePrice =
          (if 0 < length ps then js_div_length (foldl js_add (Fin 0) ps) (length ps) else Fin 0),
        minPrice = (if 0 < length ps then Math_min ps else Fin 0),
        maxPrice = (if 0 < length ps then Math_max ps else Fin 0),
        totalListings = length ps,
        priceRange =
          \<lparr>low = length (filter (\<lambda>p. js_lt p (Fin 10)) ps),
           medium = length (filter (\<lambda>p. js_ge p (Fin 10) \<and> js_lt p (Fin 20)) ps),
           high = length (filter (\<lambda>p. js_ge p (Fin 20)) ps)\<rparr>\<rparr>"
  by (simp add: priceStats_def Let_def assms [symmetric])

lemmas js_eval = Math_min_def Math_max_def js_min_def js_max_def js_ge_def js_le_def

text \<open>
  C5. When the prices of the active listings are 5, 15 and 25, in any order, the
  statistics are: average 15, minimum 5, maximum 25, three listings, and one price in
  each of the buckets below 10, from 10 to below 20, and from 20. (On these values the
  arithmetic of doubles is exact, as the model's is.)
\<close>

theorem priceStats_5_15_25:
  assumes "mset (map lst_price
                   (filter (\<lambda>l. lst_status l = ''active'') (marketplaceListings st)))
             = {#Fin 5, Fin 15, Fin 25#}"
  shows "priceStats st =
     Success 200
       \<lparr>averagePrice = Fin 15, minPrice = Fin 5, maxPrice = Fin 25, totalListings = 3,
        priceRange = \<lparr>low = 1, medium = 1, high = 1\<rparr>\<rparr>"
proof -
  let ?ps = "map lst_price (filter (\<lambda>l. lst_status l = ''active'') (marketplaceListings st))"
  from mset_three [OF assms]
  consider "?ps = [Fin 5, Fin 15, Fin 25]" | "?ps = [Fin 5, Fin 25, Fin 15]"
    | "?ps = [Fin 15, Fin 5, Fin 25]" | "?ps = [Fin 15, Fin 25, Fin 5]"
    | "?ps = [Fin 25, Fin 5, Fin 15]" | "?ps = [Fin 25, Fin 15, Fin 5]"
    by auto
  then show ?thesis
  proof cases
    case 1
    show ?thesis by (simp add: priceStats_of_prices [OF 1] js_eval)
  next
    case 2
    show ?thesis by (simp add: priceStats_of_prices [OF 2] js_eval)
  next
    case 3
    show ?thesis by (simp add: priceStats_of_prices [OF 3] js_eval)
  next
    case 4
    show ?thesis by (simp add: priceStats_of_prices [OF 4] js_eval)
  next
    case 5
    show ?thesis by (simp add: priceStats_of_prices [OF 5] js_eval)
  next
    case 6
    show ?thesis by (simp add: priceStats_of_prices [OF 6] js_eval)
  qed
qed

theorem priceStats_5_15_25_witness:
  "map lst_price (filter (\<lambda>l. lst_status l = ''active'') (marketplaceListings market_store))
     = [Fin 15, Fin 25, Fin 5]
   \<and> priceStats market_store =
       Success 200
         \<lparr>averagePrice = Fin 15, minPrice = Fin 5, maxPrice = Fin 25, totalListings = 3,
          priceRange = \<lparr>low = 1, medium = 1, high = 1\<rparr>\<rparr>"
  using priceStats_5_15_25 [of market_store]
  by (simp add: market_store_def forest_listing_def solar_listing_def orphan_listing_def
      sold_listing_def add_mset_commute)

text \<open>
  C10. When no listing of the store is active, the statistics are all 0: the average,
  the minimum and the maximum are guarded by \<open>prices.length > 0\<close>, so nothing is divided
  by zero and no minimum of nothing is taken.
\<close>

theorem priceStats_no_active_listing:
  assumes "\<forall>l \<in> set (marketplaceListings st). lst_status l \<noteq> ''active''"
  shows "priceStats st =
     Success 200
       \<lparr>averagePrice = Fin 0, minPrice = Fin 0, maxPrice = Fin 0, totalListings = 0,
        priceRange = \<lparr>low = 0, medium = 0, high = 0\<rparr>\<rparr>"
proof -
  from assms have "filter (\<lambda>l. lst_status l = ''active'') (marketplaceListings st) = []"
    by (simp add: filter_empty_conv)
  then have "map lst_price (filter (\<lambda>l. lst_status l = ''active'') (marketplaceListings st)) = []"
    by simp
  from priceStats_of_prices [OF this] show ?thesis by simp
qed

theorem priceStats_no_active_listing_witness:
  "map lst_status (marketplaceListings closed_market) = [''sold'']
   \<and> marketplaceListings sample_store = []
   \<and> priceStats closed_market =
       Success 200
         \<lparr>averagePrice = Fin 0, minPrice = Fin 0, maxPrice = Fin 0, totalListings = 0,
          priceRange = \<lparr>low = 0, medium = 0, high = 0\<rparr>\<rparr>
   \<and> priceStats sample_store =
       Success 200
         \<lparr>averagePrice = Fin 0, minPrice = Fin 0, maxPrice = Fin 0, totalListings = 0,
          priceRange = \<lparr>low = 0, medium = 0, high = 0\<rparr>\<rparr>"
  using priceStats_no_active_listing [of closed_market]
        priceStats_no_active_listing [of sample_store]
  by (simp add: closed_market_def market_store_def sold_listing_def forest_listing_def
      sample_store_def)

subsection \<open>Browsing the marketplace\<close>

text \<open>
  C6. With a category \<open>c\<close> (a non-empty string) and no price bound, the listings returned
  are exactly the active listings whose credit is in the store, whose credit's project
  is in the store, and whose project's category is \<open>c\<close>, in the order of the store.
  With no parameter at all, they are exactly the active listings.
\<close>

theorem browse_category_filter:
  "(c \<noteq> [] \<longrightarrow>
      browse (Some c) None None st =
        Success 200
          (filter (\<lambda>l. lst_status l = ''active''
                     \<and> (\<exists>credit project.
                           findById crd_id (carbonCredits st) (Some (lst_creditId l)) = Some credit
                           \<and> findById prj_id (projects st) (crd_projectId credit) = Some project
                           \<and> prj_category project = JStr c))
             (marketplaceListings st),
           length (filter (\<lambda>l. lst_status l = ''active''
                     \<and> (\<exists>credit project.
                           findById crd_id (carbonCredits st) (Some (lst_creditId l)) = Some credit
                           \<and> findById prj_id (projects st) (crd_projectId credit) = Some project
                           \<and> prj_category project = JStr c))
             (marketplaceListings st))))
   \<and> browse None None None st =
        Success 200
          (filter (\<lambda>l. lst_status l = ''active'') (marketplaceListings st),
           length (filter (\<lambda>l. lst_status l = ''active'') (marketplaceListings st)))"
proof -
  have cat: "listing_category st l = JStr c \<longleftrightarrow>
        (\<exists>credit project.
            findById crd_id (carbonCredits st) (Some (lst_creditId l)) = Some credit
            \<and> findById prj_id (projects st) (crd_projectId credit) = Some project
            \<and> prj_category project = JStr c)" for l
    by (auto simp add: listing_category_def Let_def split: option.splits)
  show ?thesis
    by (simp add: browse_def Let_def cat cong: conj_cong)
qed

text \<open>An empty category parameter is falsy: the request is handled as one with no filter.\<close>

lemma browse_empty_category: "browse (Some []) None None st = browse None None None st"
  by (simp add: browse_def)

theorem browse_category_filter_witness:
  "''solar'' \<noteq> []
   \<and> browse (Some ''solar'') None None market_store = Success 200 ([solar_listing], 1)
   \<and> browse (Some ''reforestation'') None None market_store = Success 200 ([forest_listing], 1)
   \<and> browse None None None market_store
       = Success 200 ([forest_listing, solar_listing, orphan_listing], 3)"
  using browse_category_filter [of "''solar''" market_store]
        browse_category_filter [of "''reforestation''" market_store]
  by (simp add: market_store_def forest_listing_def solar_listing_def orphan_listing_def
      sold_listing_def findById_def issued_credit_def solar_credit_def sample_project_def
      solar_project_def)

subsection \<open>Listing a credit for sale\<close>

text \<open>
  Where the handler does what is asked of it: no credit with the id answers 404; a price
  that is absent or \<open>null\<close> answers 400; a price that is a number answers 400 when it
  is 0 or less, and otherwise 201 with an active listing of that price whose available
  quantity is the whole amount of the credit.
\<close>

lemma listCredit_absent_credit:
  assumes "findById crd_id (carbonCredits st) (Some rid) = None"
  shows "listCredit e rid body st = (Failure 404 ''Credit not found'', st)"
  using assms by (simp add: listCredit_def)

lemma listCredit_missing_price:
  assumes "findById crd_id (carbonCredits st) (Some rid) = Some credit"
    and "lb_price body = JUndefined \<or> lb_price body = JNull"
  shows "listCredit e rid body st = (Failure 400 ''Valid price is required'', st)"
  using assms by (auto simp add: listCredit_def)

lemma listCredit_number_price:
  assumes "findById crd_id (carbonCredits st) (Some rid) = Some credit"
    and "lb_price body = JNum r"
  shows "(r \<le> 0 \<longrightarrow> listCredit e rid body st = (Failure 400 ''Valid price is required'', st))
    \<and> (0 < r \<longrightarrow>
          (\<exists>l. listCredit e rid body st
                  = (Success 201 l, st\<lparr>marketplaceListings := marketplaceListings st @ [l]\<rparr>)
             \<and> lst_creditId l = rid \<and> lst_price l = Fin r \<and> lst_status l = ''active''
             \<and> lst_availableQuantity l = crd_creditsAmount credit))"
  using assms findById_Some_D [OF assms(1)]
  by (auto simp add: listCredit_def Let_def js_le_def)

lemma listCredit_created_listing:
  assumes "listCredit e rid body st = (Success code l, st')"
  shows "\<exists>credit. findById crd_id (carbonCredits st) (Some rid) = Some credit
           \<and> lst_status l = ''active''
           \<and> lst_availableQuantity l = crd_creditsAmount credit
           \<and> st' = st\<lparr>marketplaceListings := marketplaceListings st @ [l]\<rparr>"
  using assms
  by (auto simp add: listCredit_def Let_def split: option.splits if_splits)

lemma str_to_number_abc: "str_to_number ''abc'' = NaN"
  by code_simp

lemma parse_float_str_abc: "parse_float_str ''abc'' = NaN"
  by code_simp

text \<open>
  C7. A price that is a string with no number in it is not greater than 0, and yet the
  request is accepted: the string is truthy, it converts to \<open>NaN\<close>, and \<open>NaN <= 0\<close> is
  false. The listing is stored as active with the price \<open>NaN\<close>.
\<close>

theorem listCredit_accepts_word_price:
  "listCredit sample_env ''CRD-9f8e7d6c'' word_price_body issued_store
     = (Success 201 word_price_listing,
        issued_store\<lparr>marketplaceListings := [word_price_listing]\<rparr>)
   \<and> lb_price word_price_body = JStr ''abc''
   \<and> \<not> js_lt (Fin 0) (to_number (lb_price word_price_body))
   \<and> lst_price word_price_listing = NaN"
  by (simp add: listCredit_def Let_def word_price_body_def word_price_listing_def
      issued_store_eval approved_store_eval sample_store_def issued_credit_def
      findById_def sample_env_def js_le_def str_to_number_abc parse_float_str_abc)

theorem listCredit_accepts_word_price_witness:
  "fst (listCredit sample_env ''CRD-9f8e7d6c'' word_price_body issued_store)
     \<noteq> Failure 400 ''Valid price is required''
   \<and> map lst_price
        (marketplaceListings
           (snd (listCredit sample_env ''CRD-9f8e7d6c'' word_price_body issued_store)))
       = [NaN]"
  using listCredit_accepts_word_price by (simp add: word_price_listing_def)

end
